theory Spec2Isabelle
  imports Complex_Main "HOL-Library.Log_Nat"
begin

section \<open>Data model (types.ts)\<close>

text \<open>
  A JavaScript number is an IEEE 754 double and is modelled by its exact rational value. A
  slot typed \<open>number\<close> can also hold \<open>NaN\<close> (arithmetic on \<open>undefined\<close>), \<open>undefined\<close>
  (a field copied from a reply that does not have it) and, after a trip through
  \<open>JSON.stringify\<close> and \<open>JSON.parse\<close>, \<open>null\<close> (the text JSON writes for \<open>NaN\<close>).
  Strings are byte lists.
\<close>

datatype jsnum = Num rat | NaN | Null | Undefined

datatype AnemiaClass = NORMAL | MILD | MODERATE | SEVERE

datatype direction = DirLow | DirHigh | DirNormal

record ExplanationFeature =
  name :: string
  direction :: direction
  impact :: string

record QualityFlags =
  sharpness_ok :: bool
  brightness_ok :: bool
  glare_detected :: bool

text \<open>
  \<open>explanations.top_contributing_features\<close> is flattened into one field; the identifier
  field \<open>id\<close> is named \<open>result_id\<close>. The class, the flags and the explanation list are
  \<open>None\<close> when the object has no such field, which happens only for a result copied from
  a generative reply that omits it. The optional payloads of the richer variant of the
  interface (\<open>explainability\<close>, \<open>preprocessing\<close>, \<open>segmentation\<close>) are set by neither
  mapper and are left out.
\<close>

record AnalysisResult =
  result_id :: string
  timestamp :: jsnum
  hb_estimate_g_dl :: jsnum
  hb_ci_95 :: "jsnum \<times> jsnum"
  anemia_class :: "AnemiaClass option"
  confidence :: jsnum
  tone_group :: jsnum
  quality_flags :: "QualityFlags option"
  top_contributing_features :: "ExplanationFeature list option"
  imageUrl :: string

datatype gender = Male | Female | Other

record User =
  user_id :: string
  email :: string
  password :: "string option"
  age :: int
  gender :: gender
  termsAccepted :: bool
  createdAt :: int
  shareData :: "bool option"

text \<open>
  A thrown \<open>Error\<close> carries its message; \<open>TypeError\<close> is what reading a property of
  \<open>undefined\<close> throws.
\<close>

datatype error = Error string | TypeError

text \<open>
  What the runtime supplies to one call: the value of \<open>generateUUID()\<close>, of \<open>Date.now()\<close>,
  and the successive draws of \<open>Math.random()\<close> (each a double in \<open>[0, 1)\<close>).
\<close>

record env =
  uuid :: string
  now :: int
  rand_hb :: rat
  rand_conf :: rat
  rand_tone :: rat

definition random_ok :: "rat \<Rightarrow> bool" where
  "random_ok r = (0 \<le> r \<and> r < 1)"

section \<open>Numbers: double arithmetic, comparison and \<open>toFixed\<close>\<close>

text \<open>
  \<open>double_of x\<close> is the double nearest to the rational \<open>x\<close>: 53 significant bits, ties to
  the even significand, and no exponent below \<open>-1074\<close> (gradual underflow). \<open>ilog2 x\<close> is
  the integer \<open>k\<close> with \<open>2^k \<le> x < 2^(k+1)\<close>, and \<open>double_quantum x\<close> the spacing of the
  doubles around \<open>x\<close>. In the services below every arithmetic operation of the code is
  followed by \<open>double_of\<close>, and a decimal literal such as \<open>0.9\<close> is \<open>double_of (9 / 10)\<close>.
  Overflow to \<open>Infinity\<close> is not modelled; on finite doubles none of the operations of
  the services overflows.
\<close>

definition ilog2 :: "rat \<Rightarrow> int" where
  "ilog2 x =
     (let d = bitlen (fst (quotient_of x)) - bitlen (snd (quotient_of x))
      in if 2 powi d \<le> x then d else d - 1)"

definition round_half_even :: "rat \<Rightarrow> int" where
  "round_half_even y =
     (let n = \<lfloor>y\<rfloor>; r = y - of_int n
      in if r < 1 / 2 then n
         else if 1 / 2 < r then n + 1
         else if even n then n else n + 1)"

definition double_quantum :: "rat \<Rightarrow> rat" where
  "double_quantum x = 2 powi (max (ilog2 \<bar>x\<bar> - 52) (- 1074))"

definition double_of :: "rat \<Rightarrow> rat" where
  "double_of x =
     (if x = 0 then 0
      else if x < 0 then - (of_int (round_half_even (- x / double_quantum x)) * double_quantum x)
      else of_int (round_half_even (x / double_quantum x)) * double_quantum x)"

text \<open>
  \<open>ToNumber\<close> for a comparison: \<open>null\<close> converts to 0; \<open>NaN\<close> and \<open>undefined\<close> make every
  comparison false.
\<close>

fun ToNumber :: "jsnum \<Rightarrow> rat option" where
  "ToNumber (Num x) = Some x"
| "ToNumber NaN = None"
| "ToNumber Null = Some 0"
| "ToNumber Undefined = None"

definition js_le :: "jsnum \<Rightarrow> jsnum \<Rightarrow> bool" where
  "js_le a b = (case ToNumber a of None \<Rightarrow> False
                | Some x \<Rightarrow> (case ToNumber b of None \<Rightarrow> False | Some y \<Rightarrow> x \<le> y))"

text \<open>
  \<open>x.toFixed(f)\<close> works on the exact value of the double \<open>x\<close>: it prints the integer \<open>n\<close>
  for which \<open>n / 10^f\<close> is closest to \<open>|x|\<close>, the larger one on a tie, with a sign when
  \<open>x < 0\<close>. \<open>toFixed_units\<close> is that \<open>n\<close>, \<open>round_fixed f x\<close> is the decimal that is
  printed, and \<open>parseFloat_toFixed f x\<close> is the double \<open>parseFloat(x.toFixed(f))\<close> reads
  back. From \<open>10^21\<close> on \<open>toFixed\<close> prints what \<open>String(x)\<close> prints, the shortest decimal
  that reads back as \<open>x\<close>, in exponent notation; a double of that size is an integer, so
  the number read back is \<open>x\<close> itself, which \<open>parseFloat_toFixed\<close> gives as well.
\<close>

definition toFixed_units :: "nat \<Rightarrow> rat \<Rightarrow> nat" where
  "toFixed_units f x = nat \<lfloor>\<bar>x\<bar> * 10 ^ f + 1 / 2\<rfloor>"

definition round_fixed :: "nat \<Rightarrow> rat \<Rightarrow> rat" where
  "round_fixed f x =
     (if x < 0 then - (of_nat (toFixed_units f x) / 10 ^ f)
      else of_nat (toFixed_units f x) / 10 ^ f)"

definition parseFloat_toFixed :: "nat \<Rightarrow> rat \<Rightarrow> rat" where
  "parseFloat_toFixed f x = double_of (round_fixed f x)"

fun dec_digits :: "nat \<Rightarrow> string" where
  "dec_digits n =
     (if n < 10 then [char_of (48 + n)]
      else dec_digits (n div 10) @ [char_of (48 + n mod 10)])"

text \<open>
  \<open>String(x)\<close> for a double \<open>x \<ge> 10^21\<close> with \<open>n\<close> integer digits: the least number \<open>k\<close> of
  significant digits for which some \<open>s\<close> of \<open>k\<close> digits has \<open>s * 10^(n - k)\<close> read back as
  \<open>x\<close>; of two such \<open>s\<close> the one closer to \<open>x\<close>, the even one on a tie. Seventeen digits
  always suffice.
\<close>

definition digit_candidates :: "rat \<Rightarrow> nat \<Rightarrow> nat \<Rightarrow> (int \<times> nat) list" where
  "digit_candidates x n k =
     (let s1 = \<lfloor>x / 10 ^ (n - k)\<rfloor>; s2 = s1 + 1
      in filter (\<lambda>c. double_of (of_int (fst c) * 10 ^ (snd c - k)) = x)
           [(s1, n), (if s2 = 10 ^ k then (10 ^ (k - 1), n + 1) else (s2, n))])"

fun pick_closest :: "rat \<Rightarrow> nat \<Rightarrow> (int \<times> nat) list \<Rightarrow> (int \<times> nat) option" where
  "pick_closest x k [] = None"
| "pick_closest x k [c] = Some c"
| "pick_closest x k (c1 # c2 # cs) =
     (let d1 = \<bar>x - of_int (fst c1) * 10 ^ (snd c1 - k)\<bar>;
          d2 = \<bar>x - of_int (fst c2) * 10 ^ (snd c2 - k)\<bar>
      in if d1 < d2 then Some c1
         else if d2 < d1 then Some c2
         else if even (fst c1) then Some c1 else Some c2)"

fun shortest_repr :: "nat \<Rightarrow> rat \<Rightarrow> nat \<Rightarrow> nat \<Rightarrow> int \<times> nat" where
  "shortest_repr 0 x n k = (\<lfloor>x / 10 ^ (n - k)\<rfloor>, n)"
| "shortest_repr (Suc fuel) x n k =
     (case pick_closest x k (digit_candidates x n k) of
        Some c \<Rightarrow> c
      | None \<Rightarrow> shortest_repr fuel x n (Suc k))"

definition number_toString_large :: "rat \<Rightarrow> string" where
  "number_toString_large x =
     (let n = length (dec_digits (nat \<lfloor>x\<rfloor>));
          c = shortest_repr 17 x n 1
      in case dec_digits (nat (fst c)) of
           [] \<Rightarrow> []
         | d # ds \<Rightarrow> d # (if ds = [] then [] else ''.'' @ ds) @ ''e+'' @ dec_digits (snd c - 1))"

definition toFixed :: "nat \<Rightarrow> rat \<Rightarrow> string" where
  "toFixed f x =
     (if 10 ^ 21 \<le> \<bar>x\<bar> then (if x < 0 then ''-'' else []) @ number_toString_large \<bar>x\<bar>
      else
        (let n = toFixed_units f x;
             int_part = dec_digits (n div 10 ^ f);
             frac = dec_digits (n mod 10 ^ f);
             frac_part = replicate (f - length frac) (CHR ''0'') @ frac
         in (if x < 0 then ''-'' else []) @ int_part
            @ (if f = 0 then [] else ''.'' @ frac_part)))"

section \<open>Generative fallback service (geminiService.ts)\<close>

definition generateMockResult :: "env \<Rightarrow> string \<Rightarrow> AnalysisResult" where
  "generateMockResult e img =
     (let hb = double_of (11 + double_of (double_of (rand_hb e * 4) - 2));
          anemiaClass = NORMAL;
          anemiaClass = (if hb < 11 then MILD else anemiaClass);
          anemiaClass = (if hb < 19 / 2 then MODERATE else anemiaClass);
          anemiaClass = (if hb < 8 then SEVERE else anemiaClass)
      in \<lparr> result_id = uuid e,
           timestamp = Num (of_int (now e)),
           hb_estimate_g_dl = Num (parseFloat_toFixed 1 hb),
           hb_ci_95 = (Num (parseFloat_toFixed 1 (double_of (hb - double_of (8 / 10)))),
                       Num (parseFloat_toFixed 1 (double_of (hb + double_of (8 / 10))))),
           anemia_class = Some anemiaClass,
           confidence =
             Num (double_of (double_of (85 / 100) + double_of (rand_conf e * double_of (1 / 10)))),
           tone_group = Num (of_int (\<lfloor>double_of (rand_tone e * 5)\<rfloor> + 1)),
           quality_flags =
             Some \<lparr> sharpness_ok = True, brightness_ok = True, glare_detected = False \<rparr>,
           top_contributing_features =
             Some
               [ \<lparr> name = ''R_G_ratio'',
                   direction = (if hb < 12 then DirLow else DirNormal),
                   impact = (if hb < 12 then ''Increases anemia risk'' else ''Healthy coloration'') \<rparr>,
                 \<lparr> name = ''vascular_density'',
                   direction = (if hb < 10 then DirLow else DirNormal),
                   impact = ''Correlation with perfusion'' \<rparr>,
                 \<lparr> name = ''lunula_visibility'',
                   direction = DirNormal,
                   impact = ''Standard morphology'' \<rparr> ],
           imageUrl = img \<rparr>)"

text \<open>
  The parsed reply. A field is \<open>None\<close> when the reply omits it (the reply \<open>{}\<close> omits them
  all); a field that is present is taken to have the type the prompt asks for. The fields
  are copied into the result unchecked, an absent one as \<open>undefined\<close>.
\<close>

record gemini_data =
  g_hb_estimate_g_dl :: "rat option"
  g_anemia_class :: "AnemiaClass option"
  g_confidence :: "rat option"
  g_tone_group :: "rat option"
  g_quality_flags :: "QualityFlags option"
  g_explanations :: "ExplanationFeature list option"

definition num_slot :: "rat option \<Rightarrow> jsnum" where
  "num_slot v = (case v of None \<Rightarrow> Undefined | Some x \<Rightarrow> Num x)"

text \<open>
  How the \<open>try\<close> block can go: the client or the call throws, the reply has no text, the
  text is not JSON (or parses to a value whose fields cannot be read), or it parses. With
  \<open>hb_estimate_g_dl\<close> absent, \<open>data.hb_estimate_g_dl - 0.9\<close> is \<open>NaN\<close>, which \<open>toFixed\<close>
  prints as "NaN" and \<open>parseFloat\<close> reads back as \<open>NaN\<close>; nothing is thrown.
\<close>

datatype gemini_reply = CallFails string | NoText | ParseFails string | Parsed gemini_data

definition gemini_try :: "env \<Rightarrow> gemini_reply \<Rightarrow> string \<Rightarrow> error + AnalysisResult" where
  "gemini_try e reply base64Image =
     (case reply of
        CallFails msg \<Rightarrow> Inl (Error msg)
      | NoText \<Rightarrow> Inl (Error ''No response from AI'')
      | ParseFails msg \<Rightarrow> Inl (Error msg)
      | Parsed d \<Rightarrow>
          Inr \<lparr> result_id = uuid e,
                 timestamp = Num (of_int (now e)),
                 hb_estimate_g_dl = num_slot (g_hb_estimate_g_dl d),
                 hb_ci_95 =
                   (case g_hb_estimate_g_dl d of
                      None \<Rightarrow> (NaN, NaN)
                    | Some h \<Rightarrow>
                        (let ciLower = double_of (h - double_of (9 / 10));
                             ciUpper = double_of (h + double_of (9 / 10))
                         in (Num (parseFloat_toFixed 1 ciLower),
                             Num (parseFloat_toFixed 1 ciUpper)))),
                 anemia_class = g_anemia_class d,
                 confidence = num_slot (g_confidence d),
                 tone_group = num_slot (g_tone_group d),
                 quality_flags = g_quality_flags d,
                 top_contributing_features = g_explanations d,
                 imageUrl = base64Image \<rparr>)"

text \<open>
  \<open>process.env.API_KEY\<close> is absent or a string; \<open>!apiKey\<close> holds when it is absent or
  empty. The result is a sum so that a rejected promise would be a value; every branch
  returns.
\<close>

definition falsy_string :: "string option \<Rightarrow> bool" where
  "falsy_string s = (case s of None \<Rightarrow> True | Some t \<Rightarrow> t = [])"

definition gemini_analyzeNailImage ::
  "string option \<Rightarrow> env \<Rightarrow> gemini_reply \<Rightarrow> string \<Rightarrow> error + AnalysisResult" where
  "gemini_analyzeNailImage apiKey e reply base64Image =
     (if falsy_string apiKey then Inr (generateMockResult e base64Image)
      else (case gemini_try e reply base64Image of
              Inl err \<Rightarrow> Inr (generateMockResult e base64Image)
            | Inr r \<Rightarrow> Inr r))"

fun reply_fails :: "gemini_reply \<Rightarrow> bool" where
  "reply_fails (Parsed d) = False"
| "reply_fails r = True"

text \<open>The double \<open>hb\<close> that \<open>generateMockResult\<close> computes from its first draw.\<close>

definition mock_hb :: "env \<Rightarrow> rat" where
  "mock_hb e = double_of (11 + double_of (double_of (rand_hb e * 4) - 2))"

section \<open>Structured backend service (apiService.ts)\<close>

text \<open>
  The JSON envelope of \<open>POST /api/v1/scan\<close>. A field is \<open>None\<close> when the response omits
  it; a number is the double that \<open>JSON.parse\<close> read. \<open>p_confidence\<close> is part of the
  contract but is never read.
\<close>

record BackendFeature =
  f_feature_name :: "string option"
  f_name :: "string option"
  f_contribution :: "rat option"
  f_explanation :: "string option"

record BackendPrediction =
  p_hb_g_per_dl :: "rat option"
  p_hb_ci_95 :: "(rat \<times> rat) option"
  p_uncertainty :: "rat option"
  p_anemia_class :: "string option"
  p_confidence :: "rat option"

record BackendQuality =
  q_sharpness_ok :: "bool option"
  q_brightness_ok :: "bool option"
  q_glare_detected :: "bool option"

record BackendPreprocessing =
  tone_cluster :: "rat option"

record BackendExplainability =
  x_top_contributing_features :: "BackendFeature list option"

record BackendData =
  scan_id :: "string option"
  prediction :: "BackendPrediction option"
  preprocessing :: "BackendPreprocessing option"
  quality :: "BackendQuality option"
  explainability :: "BackendExplainability option"

text \<open>
  \<open>x || d\<close> takes \<open>d\<close> when \<open>x\<close> is falsy: absent, the number 0 or the empty string.
  \<open>x ?? d\<close> takes \<open>d\<close> only when \<open>x\<close> is absent.
\<close>

definition num_or :: "rat option \<Rightarrow> rat \<Rightarrow> rat" where
  "num_or x d = (case x of None \<Rightarrow> d | Some v \<Rightarrow> if v = 0 then d else v)"

definition str_or :: "string option \<Rightarrow> string \<Rightarrow> string" where
  "str_or x d = (case x of None \<Rightarrow> d | Some v \<Rightarrow> if v = [] then d else v)"

definition nullish_or :: "bool option \<Rightarrow> bool \<Rightarrow> bool" where
  "nullish_or x d = (case x of None \<Rightarrow> d | Some v \<Rightarrow> v)"

text \<open>\<open>toLowerCase\<close> on ASCII letters; other bytes are kept.\<close>

definition toLowerChar :: "char \<Rightarrow> char" where
  "toLowerChar c =
     (if 65 \<le> (of_char c :: nat) \<and> (of_char c :: nat) \<le> 90
      then char_of ((of_char c :: nat) + 32) else c)"

definition toLowerCase :: "string \<Rightarrow> string" where
  "toLowerCase s = map toLowerChar s"

fun startsWith :: "string \<Rightarrow> string \<Rightarrow> bool" where
  "startsWith s [] = True"
| "startsWith [] (c # cs) = False"
| "startsWith (x # xs) (c # cs) = (x = c \<and> startsWith xs cs)"

fun includes_str :: "string \<Rightarrow> string \<Rightarrow> bool" where
  "includes_str [] sub = (sub = [])"
| "includes_str (x # xs) sub = (startsWith (x # xs) sub \<or> includes_str xs sub)"

definition determineDirection :: "rat \<Rightarrow> direction" where
  "determineDirection contribution =
     (if contribution < - double_of (1 / 10) then DirLow
      else if contribution > double_of (1 / 10) then DirHigh
      else DirNormal)"

definition mapFeature :: "BackendFeature \<Rightarrow> ExplanationFeature" where
  "mapFeature feature =
     \<lparr> name = str_or (f_feature_name feature) (str_or (f_name feature) ''Unknown''),
       direction = determineDirection (num_or (f_contribution feature) 0),
       impact = str_or (f_explanation feature)
                  (''Contribution: '' @ toFixed 3 (num_or (f_contribution feature) 0)) \<rparr>"

definition placeholder_features :: "ExplanationFeature list" where
  "placeholder_features =
     [ \<lparr> name = ''R_G_ratio'', direction = DirNormal, impact = ''Color analysis'' \<rparr>,
       \<lparr> name = ''vascular_density'', direction = DirNormal, impact = ''Blood vessel analysis'' \<rparr>,
       \<lparr> name = ''texture'', direction = DirNormal, impact = ''Nail bed texture'' \<rparr> ]"

definition supplied_features :: "BackendData \<Rightarrow> BackendFeature list" where
  "supplied_features backendData =
     (case explainability backendData of
        None \<Rightarrow> []
      | Some ex \<Rightarrow> (case x_top_contributing_features ex of None \<Rightarrow> [] | Some fs \<Rightarrow> fs))"

definition mapAnemiaClass :: "string option \<Rightarrow> AnemiaClass" where
  "mapAnemiaClass label =
     (let anemiaLabel = (case label of None \<Rightarrow> ''normal''
                         | Some s \<Rightarrow> if toLowerCase s = [] then ''normal'' else toLowerCase s)
      in if includes_str anemiaLabel ''severe'' then SEVERE
         else if includes_str anemiaLabel ''moderate'' then MODERATE
         else if includes_str anemiaLabel ''mild'' then MILD
         else NORMAL)"

text \<open>
  Reading \<open>prediction.anemia_class\<close> throws when the envelope has no \<open>prediction\<close>. With
  \<open>hb_g_per_dl\<close> omitted, \<open>prediction.hb_g_per_dl - 0.9\<close> is \<open>NaN\<close>, which \<open>toFixed\<close> prints
  as "NaN" and \<open>parseFloat\<close> reads back as \<open>NaN\<close>. A supplied \<open>hb_ci_95\<close> array is always
  truthy and is copied as it is.
\<close>

definition mapBackendToFrontend :: "env \<Rightarrow> BackendData \<Rightarrow> string \<Rightarrow> error + AnalysisResult" where
  "mapBackendToFrontend e backendData imageUrl' =
     (case prediction backendData of
        None \<Rightarrow> Inl TypeError
      | Some p \<Rightarrow>
          (let anemiaClass = mapAnemiaClass (p_anemia_class p);
               topFeatures = supplied_features backendData;
               mappedFeatures = map mapFeature (take 3 topFeatures);
               uncertainty = num_or (p_uncertainty p) (double_of (1 / 10));
               confidence' =
                 max (1 / 2) (min (double_of (99 / 100)) (double_of (1 - uncertainty)))
           in Inr \<lparr> result_id = str_or (scan_id backendData) (uuid e),
                    timestamp = Num (of_int (now e)),
                    hb_estimate_g_dl = Num (parseFloat_toFixed 1 (num_or (p_hb_g_per_dl p) 12)),
                    hb_ci_95 =
                      (case p_hb_ci_95 p of
                         Some ci \<Rightarrow> (Num (fst ci), Num (snd ci))
                       | None \<Rightarrow>
                           (case p_hb_g_per_dl p of
                              None \<Rightarrow> (NaN, NaN)
                            | Some h \<Rightarrow>
                                (Num (parseFloat_toFixed 1 (double_of (h - double_of (9 / 10)))),
                                 Num (parseFloat_toFixed 1 (double_of (h + double_of (9 / 10))))))),
                    anemia_class = Some anemiaClass,
                    confidence = Num (parseFloat_toFixed 2 confidence'),
                    tone_group =
                      Num (num_or (case preprocessing backendData of
                                     None \<Rightarrow> None | Some pp \<Rightarrow> tone_cluster pp) 3),
                    quality_flags =
                      Some \<lparr> sharpness_ok =
                          nullish_or (case quality backendData of
                                        None \<Rightarrow> None | Some q \<Rightarrow> q_sharpness_ok q) True,
                        brightness_ok =
                          nullish_or (case quality backendData of
                                        None \<Rightarrow> None | Some q \<Rightarrow> q_brightness_ok q) True,
                        glare_detected =
                          nullish_or (case quality backendData of
                                        None \<Rightarrow> None | Some q \<Rightarrow> q_glare_detected q) False \<rparr>,
                    top_contributing_features =
                      Some (if length mappedFeatures > 0 then mappedFeatures
                            else placeholder_features),
                    imageUrl = imageUrl' \<rparr>))"

section \<open>Session and history store (storage.ts)\<close>

text \<open>
  \<open>localStorage\<close> under the three key families of the service: the users table, the
  session key and one history key per user identifier (the fixed prefixes keep the three
  apart). Each slot holds the value whose JSON text is stored, \<open>None\<close> when the key is
  absent. A user record holds only strings, booleans and integers, which JSON text
  represents exactly, as it does a double. In a result, \<open>JSON.stringify\<close> writes \<open>NaN\<close> as
  \<open>null\<close> and leaves an \<open>undefined\<close> field out (inside an array it writes \<open>null\<close> for
  it), so reading a history back applies \<open>json_result\<close>.
\<close>

record localStorage =
  users_table :: "User list option"
  current_session :: "User option"
  history_table :: "string \<Rightarrow> AnalysisResult list option"

fun json_num :: "jsnum \<Rightarrow> jsnum" where
  "json_num NaN = Null"
| "json_num (Num x) = Num x"
| "json_num Null = Null"
| "json_num Undefined = Undefined"

fun json_elem :: "jsnum \<Rightarrow> jsnum" where
  "json_elem Undefined = Null"
| "json_elem x = json_num x"

definition json_result :: "AnalysisResult \<Rightarrow> AnalysisResult" where
  "json_result r =
     r\<lparr> timestamp := json_num (timestamp r),
        hb_estimate_g_dl := json_num (hb_estimate_g_dl r),
        hb_ci_95 := (json_elem (fst (hb_ci_95 r)), json_elem (snd (hb_ci_95 r))),
        confidence := json_num (confidence r),
        tone_group := json_num (tone_group r) \<rparr>"

definition DuplicateEmail :: error where
  "DuplicateEmail = Error ''User already exists with this email.''"

definition InvalidCredentials :: error where
  "InvalidCredentials = Error ''Invalid email or password.''"

definition read_users :: "localStorage \<Rightarrow> User list" where
  "read_users s = (case users_table s of None \<Rightarrow> [] | Some users \<Rightarrow> users)"

definition newUser :: "env \<Rightarrow> string \<Rightarrow> string \<Rightarrow> int \<Rightarrow> gender \<Rightarrow> bool \<Rightarrow> User" where
  "newUser e email' password' age' gender' termsAccepted' =
     \<lparr> user_id = uuid e,
       email = email',
       password = Some password',
       age = age',
       gender = gender',
       termsAccepted = termsAccepted',
       createdAt = now e,
       shareData = Some False \<rparr>"

definition register ::
  "env \<Rightarrow> localStorage \<Rightarrow> string \<Rightarrow> string \<Rightarrow> int \<Rightarrow> gender \<Rightarrow> bool
     \<Rightarrow> (error + User) \<times> localStorage" where
  "register e s email' password' age' gender' termsAccepted' =
     (let users = read_users s
      in case find (\<lambda>u. email u = email') users of
           Some u \<Rightarrow> (Inl DuplicateEmail, s)
         | None \<Rightarrow>
             (let new = newUser e email' password' age' gender' termsAccepted'
              in (Inr new,
                  s\<lparr> users_table := Some (users @ [new]),
                     current_session := Some new \<rparr>)))"

definition login ::
  "localStorage \<Rightarrow> string \<Rightarrow> string \<Rightarrow> (error + User) \<times> localStorage" where
  "login s email' password' =
     (let users = read_users s
      in case find (\<lambda>u. email u = email' \<and> password u = Some password') users of
           None \<Rightarrow> (Inl InvalidCredentials, s)
         | Some user \<Rightarrow> (Inr user, s\<lparr> current_session := Some user \<rparr>))"

definition logout :: "localStorage \<Rightarrow> localStorage" where
  "logout s = s\<lparr> current_session := None \<rparr>"

definition getCurrentUser :: "localStorage \<Rightarrow> User option" where
  "getCurrentUser s = current_session s"

definition updateUser :: "localStorage \<Rightarrow> User \<Rightarrow> localStorage" where
  "updateUser s updatedUser =
     (let s1 = s\<lparr> current_session := Some updatedUser \<rparr>
      in case users_table s1 of
           None \<Rightarrow> s1
         | Some users \<Rightarrow>
             s1\<lparr> users_table :=
                   Some (map (\<lambda>u. if user_id u = user_id updatedUser then updatedUser else u)
                           users) \<rparr>)"

definition getUserHistory :: "localStorage \<Rightarrow> string \<Rightarrow> AnalysisResult list" where
  "getUserHistory s userId =
     (case history_table s userId of None \<Rightarrow> [] | Some h \<Rightarrow> map json_result h)"

definition saveScan :: "localStorage \<Rightarrow> string \<Rightarrow> AnalysisResult \<Rightarrow> localStorage" where
  "saveScan s userId result =
     (let history = (case history_table s userId of None \<Rightarrow> [] | Some h \<Rightarrow> map json_result h)
      in s\<lparr> history_table := (history_table s)(userId \<mapsto> history @ [result]) \<rparr>)"

section \<open>Properties named by the specification\<close>

text \<open>
  The ordered-interval and unit-confidence invariants of a result; the case-insensitive
  substring match and the label priority in the specification's words; \<open>clamp\<close>; and the
  results that a JSON round trip leaves unchanged.
\<close>

definition ci_ordered :: "AnalysisResult \<Rightarrow> bool" where
  "ci_ordered r = js_le (fst (hb_ci_95 r)) (snd (hb_ci_95 r))"


definition ci_substring :: "string \<Rightarrow> string \<Rightarrow> bool" where
  "ci_substring w s = (\<exists>pre mid suf. s = pre @ mid @ suf \<and> toLowerCase mid = w)"

definition spec_label_class :: "string \<Rightarrow> AnemiaClass" where
  "spec_label_class l =
     (if ci_substring ''severe'' l then SEVERE
      else if ci_substring ''moderate'' l then MODERATE
      else if ci_substring ''mild'' l then MILD
      else NORMAL)"

definition clamp :: "rat \<Rightarrow> rat \<Rightarrow> rat \<Rightarrow> rat" where
  "clamp x lo hi = max lo (min hi x)"

definition json_exact :: "AnalysisResult \<Rightarrow> bool" where
  "json_exact r = (json_result r = r)"

section \<open>Concrete inputs\<close>

definition env0 :: env where
  "env0 = \<lparr> uuid = ''u1'', now = 1000, rand_hb = 63 / 128, rand_conf = 1 / 2, rand_tone = 1 / 2 \<rparr>"

definition env_tie :: env where
  "env_tie = env0\<lparr> rand_hb := 1 / 2 - 1 / 2 ^ 52 \<rparr>"

definition env_used_id :: env where
  "env_used_id = env0\<lparr> uuid := ''u0'' \<rparr>"

definition pred0 :: BackendPrediction where
  "pred0 = \<lparr> p_hb_g_per_dl = Some (49 / 4), p_hb_ci_95 = None, p_uncertainty = Some (1 / 4),
             p_anemia_class = Some ''Mild to SEVERE'', p_confidence = None \<rparr>"

definition feat0 :: BackendFeature where
  "feat0 = \<lparr> f_feature_name = Some ''mean_red'', f_name = None,
             f_contribution = Some (- (1 / 4)), f_explanation = None \<rparr>"

definition backend0 :: BackendData where
  "backend0 = \<lparr> scan_id = Some ''scan-1'', prediction = Some pred0, preprocessing = None,
                quality = None, explainability = None \<rparr>"

definition backend_one_feature :: BackendData where
  "backend_one_feature =
     backend0\<lparr> explainability := Some \<lparr> x_top_contributing_features = Some [feat0] \<rparr> \<rparr>"

definition backend_four_features :: BackendData where
  "backend_four_features =
     backend0\<lparr> explainability := Some \<lparr> x_top_contributing_features = Some [feat0, feat0, feat0, feat0] \<rparr> \<rparr>"

definition backend_zero_uncertainty :: BackendData where
  "backend_zero_uncertainty = backend0\<lparr> prediction := Some (pred0\<lparr> p_uncertainty := Some 0 \<rparr>) \<rparr>"


definition backend_no_hb :: BackendData where
  "backend_no_hb = backend0\<lparr> prediction := Some (pred0\<lparr> p_hb_g_per_dl := None \<rparr>) \<rparr>"


definition gemini_empty :: gemini_data where
  "gemini_empty = \<lparr> g_hb_estimate_g_dl = None, g_anemia_class = None, g_confidence = None,
                    g_tone_group = None, g_quality_flags = None, g_explanations = None \<rparr>"

definition alice :: User where
  "alice = \<lparr> user_id = ''u0'', email = ''a@x.com'', password = Some ''secret1'', age = 30,
             gender = Female, termsAccepted = True, createdAt = 500, shareData = Some False \<rparr>"

definition store0 :: localStorage where
  "store0 = \<lparr> users_table = Some [alice], current_session = None, history_table = Map.empty \<rparr>"

definition result_nan :: AnalysisResult where
  "result_nan = projr (mapBackendToFrontend env0 backend_no_hb ''img'')"

definition result_ok :: AnalysisResult where
  "result_ok = generateMockResult env0 ''img''"

section \<open>Double rounding is monotone\<close>

lemma bitlen_powi_bounds:
  assumes "0 < (k::int)"
  shows "(2::rat) powi (bitlen k - 1) \<le> of_int k" and "(of_int k :: rat) < 2 powi (bitlen k)"
proof -
  from assms have b: "2 ^ nat (bitlen k - 1) \<le> k" "k < 2 ^ nat (bitlen k)"
    using bitlen_bounds[of k] by simp_all
  from assms have pos: "1 \<le> bitlen k"
    using bitlen_eq_zero_iff[of k] bitlen_nonneg[of k] by linarith
  have "(of_int (2 ^ nat (bitlen k - 1)) :: rat) \<le> of_int k" using b(1) by (simp only: of_int_le_iff)
  then show "(2::rat) powi (bitlen k - 1) \<le> of_int k"
    using pos by (simp add: power_int_nonneg_exp)
  have "(of_int k :: rat) < of_int (2 ^ nat (bitlen k))" using b(2) by (simp only: of_int_less_iff)
  then show "(of_int k :: rat) < 2 powi (bitlen k)"
    using pos by (simp add: power_int_nonneg_exp)
qed

lemma ilog2_bounds:
  assumes "0 < x"
  shows "2 powi (ilog2 x) \<le> x" and "x < 2 powi (ilog2 x + 1)"
proof -
  obtain a b where q: "quotient_of x = (a, b)" by (cases "quotient_of x")
  then have bpos: "0 < b" and x: "x = of_int a / of_int b"
    using quotient_of_denom_pos quotient_of_div by blast+
  from assms x bpos have apos: "0 < a" by (simp add: zero_less_divide_iff)
  define d where "d = bitlen a - bitlen b"
  have il: "ilog2 x = (if 2 powi d \<le> x then d else d - 1)"
    by (simp add: ilog2_def q d_def Let_def)
  have bp: "(0::rat) < of_int b" using bpos by simp
  have up: "x < 2 powi (d + 1)"
  proof -
    have "of_int a < (2::rat) powi (bitlen a)" using bitlen_powi_bounds(2)[OF apos] .
    moreover have "(2::rat) powi (bitlen b - 1) \<le> of_int b" using bitlen_powi_bounds(1)[OF bpos] .
    moreover have "(0::rat) < 2 powi (bitlen b - 1)" by simp
    ultimately have "of_int a / of_int b < (2::rat) powi (bitlen a) / 2 powi (bitlen b - 1)"
    proof -
      assume A: "of_int a < (2::rat) powi (bitlen a)"
        and B: "(2::rat) powi (bitlen b - 1) \<le> of_int b"
        and P: "(0::rat) < 2 powi (bitlen b - 1)"
      have "(of_int a :: rat) / of_int b \<le> of_int a / 2 powi (bitlen b - 1)"
        using B P apos bp by (intro divide_left_mono) (auto simp: less_imp_le)
      also have "\<dots> < (2::rat) powi (bitlen a) / 2 powi (bitlen b - 1)"
        using A P by (intro divide_strict_right_mono)
      finally show ?thesis .
    qed
    also have "\<dots> = 2 powi (d + 1)"
      by (simp add: d_def power_int_diff[symmetric] algebra_simps)
    finally show ?thesis by (simp add: x)
  qed
  have lo: "2 powi (d - 1) \<le> x"
  proof -
    have "(2::rat) powi (bitlen a - 1) \<le> of_int a" using bitlen_powi_bounds(1)[OF apos] .
    moreover have "of_int b \<le> (2::rat) powi (bitlen b)"
      using bitlen_powi_bounds(2)[OF bpos] by simp
    moreover have "(0::rat) < 2 powi (bitlen a - 1)" by simp
    ultimately have "(2::rat) powi (bitlen a - 1) / 2 powi (bitlen b) \<le> of_int a / of_int b"
    proof -
      assume A: "(2::rat) powi (bitlen a - 1) \<le> of_int a"
        and B: "of_int b \<le> (2::rat) powi (bitlen b)"
        and P: "(0::rat) < 2 powi (bitlen a - 1)"
      have "(2::rat) powi (bitlen a - 1) / 2 powi (bitlen b) \<le> 2 powi (bitlen a - 1) / of_int b"
        using B P bp by (intro divide_left_mono) (auto simp: less_imp_le)
      also have "\<dots> \<le> of_int a / of_int b"
        using A bp by (intro divide_right_mono) (auto simp: less_imp_le)
      finally show ?thesis .
    qed
    moreover have "(2::rat) powi (bitlen a - 1) / 2 powi (bitlen b) = 2 powi (d - 1)"
      by (simp add: d_def power_int_diff[symmetric] algebra_simps)
    ultimately show ?thesis by (simp add: x)
  qed
  show "2 powi (ilog2 x) \<le> x" using il lo by auto
  show "x < 2 powi (ilog2 x + 1)" using il up by (auto simp: not_le)
qed

lemma ilog2_mono:
  assumes "0 < x" and "x \<le> y"
  shows "ilog2 x \<le> ilog2 y"
proof -
  from assms have "0 < y" by simp
  have "(2::rat) powi (ilog2 x) \<le> x" using ilog2_bounds(1)[OF assms(1)] .
  also have "x \<le> y" by fact
  also have "y < 2 powi (ilog2 y + 1)" using ilog2_bounds(2)[OF \<open>0 < y\<close>] .
  finally have "(2::rat) powi (ilog2 x) < 2 powi (ilog2 y + 1)" .
  then have "ilog2 x < ilog2 y + 1"
    by (metis not_le power_int_increasing one_le_numeral)
  then show ?thesis by simp
qed

lemma round_half_even_floor: "\<lfloor>y\<rfloor> \<le> round_half_even y \<and> round_half_even y \<le> \<lfloor>y\<rfloor> + 1"
  by (simp add: round_half_even_def Let_def)

lemma round_half_even_of_int [simp]: "round_half_even (of_int k) = k"
  by (simp add: round_half_even_def Let_def)

lemma round_half_even_mono:
  assumes "x \<le> y"
  shows "round_half_even x \<le> round_half_even y"
proof (cases "\<lfloor>x\<rfloor> = \<lfloor>y\<rfloor>")
  case True
  with assms have "x - of_int \<lfloor>x\<rfloor> \<le> y - of_int \<lfloor>y\<rfloor>" by simp
  with True show ?thesis by (auto simp: round_half_even_def Let_def)
next
  case False
  with assms have "\<lfloor>x\<rfloor> < \<lfloor>y\<rfloor>" using floor_mono[of x y] by linarith
  with round_half_even_floor[of x] round_half_even_floor[of y] show ?thesis by linarith
qed

lemma round_half_even_ge:
  assumes "of_int k \<le> y"
  shows "k \<le> round_half_even y"
  using round_half_even_mono[OF assms] by simp

lemma round_half_even_le:
  assumes "y \<le> of_int k"
  shows "round_half_even y \<le> k"
  using round_half_even_mono[OF assms] by simp


lemma double_quantum_pos: "0 < double_quantum x"
  by (simp add: double_quantum_def)

lemma double_quantum_minus: "double_quantum (- x) = double_quantum x"
  by (simp add: double_quantum_def)

lemma double_of_minus: "double_of (- x) = - double_of x"
  by (simp add: double_of_def double_quantum_minus)

lemma double_of_pos:
  "0 < x \<Longrightarrow> double_of x = of_int (round_half_even (x / double_quantum x)) * double_quantum x"
  by (simp add: double_of_def)

lemma double_of_grid_ge:
  assumes "0 < x" and "of_int k * double_quantum x \<le> x"
  shows "of_int k * double_quantum x \<le> double_of x"
proof -
  from assms(2) have "of_int k \<le> x / double_quantum x"
    using double_quantum_pos[of x] by (simp add: pos_le_divide_eq)
  then have "k \<le> round_half_even (x / double_quantum x)" by (rule round_half_even_ge)
  then have "(of_int k :: rat) \<le> of_int (round_half_even (x / double_quantum x))"
    by (simp only: of_int_le_iff)
  then show ?thesis
    using double_quantum_pos[of x] by (simp add: double_of_pos[OF assms(1)] mult_right_mono)
qed

lemma double_of_grid_le:
  assumes "0 < x" and "x \<le> of_int k * double_quantum x"
  shows "double_of x \<le> of_int k * double_quantum x"
proof -
  from assms(2) have "x / double_quantum x \<le> of_int k"
    using double_quantum_pos[of x] by (simp add: pos_divide_le_eq)
  then have "round_half_even (x / double_quantum x) \<le> k" by (rule round_half_even_le)
  then have "(of_int (round_half_even (x / double_quantum x)) :: rat) \<le> of_int k"
    by (simp only: of_int_le_iff)
  then show ?thesis
    using double_quantum_pos[of x] by (simp add: double_of_pos[OF assms(1)] mult_right_mono)
qed

lemma double_of_nonneg: "0 \<le> x \<Longrightarrow> 0 \<le> double_of x"
proof (cases "x = 0")
  case True
  then show ?thesis by (simp add: double_of_def)
next
  case False
  assume "0 \<le> x"
  with False have p: "0 < x" by simp
  have "of_int 0 * double_quantum x \<le> double_of x"
    by (rule double_of_grid_ge[OF p]) (use p in simp)
  then show ?thesis by simp
qed

lemma double_of_mono_pos:
  assumes "0 < x" and "x \<le> y"
  shows "double_of x \<le> double_of y"
proof -
  from assms have ypos: "0 < y" by simp
  define ex where "ex = max (ilog2 x - 52) (- 1074)"
  define ey where "ey = max (ilog2 y - 52) (- 1074)"
  have qx: "double_quantum x = 2 powi ex" using assms(1) by (simp add: double_quantum_def ex_def)
  have qy: "double_quantum y = 2 powi ey" using ypos by (simp add: double_quantum_def ey_def)
  have le: "ex \<le> ey" using ilog2_mono[OF assms] by (simp add: ex_def ey_def)
  show ?thesis
  proof (cases "ex = ey")
    case True
    then have q: "double_quantum x = double_quantum y" by (simp add: qx qy)
    have "x / double_quantum y \<le> y / double_quantum y"
      using assms(2) double_quantum_pos[of y] by (simp add: divide_right_mono)
    then have "round_half_even (x / double_quantum y) \<le> round_half_even (y / double_quantum y)"
      by (rule round_half_even_mono)
    then have "(of_int (round_half_even (x / double_quantum y)) :: rat)
                 \<le> of_int (round_half_even (y / double_quantum y))"
      by (simp only: of_int_le_iff)
    then show ?thesis
      using double_quantum_pos[of y]
      by (simp add: double_of_pos[OF assms(1)] double_of_pos[OF ypos] q mult_right_mono)
  next
    case False
    with le have lt: "ex < ey" by simp
    then have ey': "ey = ilog2 y - 52" and exy: "ilog2 x + 1 \<le> ilog2 y"
      by (auto simp: ex_def ey_def)
    define P :: rat where "P = 2 powi (ilog2 y)"
    have Py: "P = of_int (2 ^ 52) * double_quantum y"
    proof -
      have a: "(2::rat) powi (52 + (ilog2 y - 52)) = 2 powi 52 * 2 powi (ilog2 y - 52)"
        by (rule power_int_add) simp
      have c: "52 + (ilog2 y - 52) = ilog2 y" by simp
      have b: "(2::rat) powi 52 = of_int (2 ^ 52)" by simp
      from a have "(2::rat) powi (ilog2 y) = of_int (2 ^ 52) * 2 powi (ilog2 y - 52)"
        by (simp only: c b)
      then show ?thesis by (simp only: P_def qy ey')
    qed
    have nonneg: "0 \<le> ilog2 y - ex" using lt ey' by simp
    have Px: "P = of_int (2 ^ nat (ilog2 y - ex)) * double_quantum x"
    proof -
      have a: "(2::rat) powi ((ilog2 y - ex) + ex) = 2 powi (ilog2 y - ex) * 2 powi ex"
        by (rule power_int_add) simp
      have c: "(ilog2 y - ex) + ex = ilog2 y" by simp
      have "(2::rat) powi (ilog2 y - ex) = 2 ^ nat (ilog2 y - ex)"
        using nonneg by (rule power_int_nonneg_exp)
      also have "\<dots> = of_int (2 ^ nat (ilog2 y - ex))" by simp
      finally have b: "(2::rat) powi (ilog2 y - ex) = of_int (2 ^ nat (ilog2 y - ex))" .
      from a have "(2::rat) powi (ilog2 y) = of_int (2 ^ nat (ilog2 y - ex)) * 2 powi ex"
        by (simp only: c b)
      then show ?thesis by (simp only: P_def qx)
    qed
    have "x < 2 powi (ilog2 x + 1)" using ilog2_bounds(2)[OF assms(1)] .
    also have "\<dots> \<le> P" unfolding P_def using exy by (intro power_int_increasing) simp_all
    finally have xP: "x \<le> P" by simp
    have Pyy: "P \<le> y" unfolding P_def using ilog2_bounds(1)[OF ypos] .
    have "double_of x \<le> P"
      using double_of_grid_le[OF assms(1), of "2 ^ nat (ilog2 y - ex)"] xP by (simp only: Px[symmetric])
    also have "P \<le> double_of y"
      using double_of_grid_ge[OF ypos, of "2 ^ 52"] Pyy by (simp only: Py[symmetric])
    finally show ?thesis .
  qed
qed

lemma double_of_mono:
  assumes "x \<le> y"
  shows "double_of x \<le> double_of y"
proof -
  consider "0 < x" | "x \<le> 0" "0 \<le> y" | "y < 0" using assms by linarith
  then show ?thesis
  proof cases
    case 1
    then show ?thesis using assms by (rule double_of_mono_pos)
  next
    case 2
    have "0 \<le> double_of (- x)" using 2(1) by (intro double_of_nonneg) simp
    then have "double_of x \<le> 0" by (simp add: double_of_minus)
    also have "0 \<le> double_of y" using 2(2) by (rule double_of_nonneg)
    finally show ?thesis .
  next
    case 3
    then have "0 < - y" and "- y \<le> - x" using assms by simp_all
    then have "double_of (- y) \<le> double_of (- x)" by (rule double_of_mono_pos)
    then show ?thesis by (simp add: double_of_minus)
  qed
qed

section \<open>Rounding lemmas\<close>

lemma toFixed_units_mono:
  "\<bar>x\<bar> \<le> \<bar>y\<bar> \<Longrightarrow> toFixed_units f x \<le> toFixed_units f y"
  unfolding toFixed_units_def
  by (intro nat_mono floor_mono add_right_mono mult_right_mono) simp_all

lemma round_fixed_nonneg: "0 \<le> x \<Longrightarrow> 0 \<le> round_fixed f x"
  by (simp add: round_fixed_def)

lemma round_fixed_nonpos: "x < 0 \<Longrightarrow> round_fixed f x \<le> 0"
  by (simp add: round_fixed_def)

lemma round_fixed_mono:
  assumes "x \<le> y"
  shows "round_fixed f x \<le> round_fixed f y"
proof (cases "x < 0")
  case xneg: True
  show ?thesis
  proof (cases "y < 0")
    case True
    with assms have "\<bar>y\<bar> \<le> \<bar>x\<bar>" by simp
    then have "toFixed_units f y \<le> toFixed_units f x" by (rule toFixed_units_mono)
    then have "(of_nat (toFixed_units f y) :: rat) / 10 ^ f \<le> of_nat (toFixed_units f x) / 10 ^ f"
      by (simp add: divide_right_mono)
    with xneg True show ?thesis by (simp add: round_fixed_def)
  next
    case False
    then have "0 \<le> round_fixed f y" by (simp add: round_fixed_nonneg)
    moreover from xneg have "round_fixed f x \<le> 0" by (rule round_fixed_nonpos)
    ultimately show ?thesis by simp
  qed
next
  case False
  with assms have "\<bar>x\<bar> \<le> \<bar>y\<bar>" and "\<not> y < 0" by simp_all
  then have "toFixed_units f x \<le> toFixed_units f y" by (simp add: toFixed_units_mono)
  then have "(of_nat (toFixed_units f x) :: rat) / 10 ^ f \<le> of_nat (toFixed_units f y) / 10 ^ f"
    by (simp add: divide_right_mono)
  with False \<open>\<not> y < 0\<close> show ?thesis by (simp add: round_fixed_def)
qed

lemma parseFloat_toFixed_mono:
  "x \<le> y \<Longrightarrow> parseFloat_toFixed f x \<le> parseFloat_toFixed f y"
  unfolding parseFloat_toFixed_def by (intro double_of_mono round_fixed_mono)

lemma double_of_0: "double_of 0 = 0"
  by (simp add: double_of_def)


lemma double_of_2: "double_of 2 = 2"
  by code_simp

lemma double_of_minus_2: "double_of (- 2) = - 2"
  by code_simp

lemma double_of_4: "double_of 4 = 4"
  by code_simp

lemma double_of_9: "double_of 9 = 9"
  by code_simp

lemma double_of_13: "double_of 13 = 13"
  by code_simp




lemma parseFloat_toFixed_9: "parseFloat_toFixed 1 9 = 9"
  by code_simp

lemma parseFloat_toFixed_13: "parseFloat_toFixed 1 13 = 13"
  by code_simp







section \<open>Synthetic fallback generator\<close>

lemma mock_hb_range:
  assumes "random_ok (rand_hb e)"
  shows "9 \<le> mock_hb e \<and> mock_hb e \<le> 13"
proof -
  from assms have r: "0 \<le> rand_hb e * 4" "rand_hb e * 4 \<le> 4" by (simp_all add: random_ok_def)
  have a: "0 \<le> double_of (rand_hb e * 4)" using r(1) by (rule double_of_nonneg)
  have "double_of (rand_hb e * 4) \<le> double_of 4" using r(2) by (rule double_of_mono)
  then have b: "double_of (rand_hb e * 4) \<le> 4" by (simp only: double_of_4)
  from a have "- 2 \<le> double_of (rand_hb e * 4) - 2" by simp
  then have "double_of (- 2) \<le> double_of (double_of (rand_hb e * 4) - 2)" by (rule double_of_mono)
  then have c: "- 2 \<le> double_of (double_of (rand_hb e * 4) - 2)" by (simp only: double_of_minus_2)
  from b have "double_of (rand_hb e * 4) - 2 \<le> 2" by simp
  then have "double_of (double_of (rand_hb e * 4) - 2) \<le> double_of 2" by (rule double_of_mono)
  then have d: "double_of (double_of (rand_hb e * 4) - 2) \<le> 2" by (simp only: double_of_2)
  from c have "9 \<le> 11 + double_of (double_of (rand_hb e * 4) - 2)" by simp
  then have "double_of 9 \<le> double_of (11 + double_of (double_of (rand_hb e * 4) - 2))"
    by (rule double_of_mono)
  then have lo: "9 \<le> mock_hb e" by (simp only: double_of_9 mock_hb_def)
  from d have "11 + double_of (double_of (rand_hb e * 4) - 2) \<le> 13" by simp
  then have "double_of (11 + double_of (double_of (rand_hb e * 4) - 2)) \<le> double_of 13"
    by (rule double_of_mono)
  then have hi: "mock_hb e \<le> 13" by (simp only: double_of_13 mock_hb_def)
  from lo hi show ?thesis by simp
qed

lemma mock_estimate:
  "hb_estimate_g_dl (generateMockResult e img) = Num (parseFloat_toFixed 1 (mock_hb e))"
  by (simp add: generateMockResult_def mock_hb_def Let_def)

lemma mock_class:
  "anemia_class (generateMockResult e img) =
     Some (if mock_hb e < 8 then SEVERE else if mock_hb e < 19 / 2 then MODERATE
           else if mock_hb e < 11 then MILD else NORMAL)"
  by (simp add: generateMockResult_def mock_hb_def Let_def)

lemma mock_estimate_range:
  assumes "random_ok (rand_hb e)"
  shows "js_le (Num 9) (hb_estimate_g_dl (generateMockResult e img))
       \<and> js_le (hb_estimate_g_dl (generateMockResult e img)) (Num 13)"
proof -
  from assms have r: "9 \<le> mock_hb e" "mock_hb e \<le> 13"
    using mock_hb_range[of e] by simp_all
  have lo: "9 \<le> parseFloat_toFixed 1 (mock_hb e)"
    using parseFloat_toFixed_mono[OF r(1), of 1] by (simp only: parseFloat_toFixed_9)
  have hi: "parseFloat_toFixed 1 (mock_hb e) \<le> 13"
    using parseFloat_toFixed_mono[OF r(2), of 1] by (simp only: parseFloat_toFixed_13)
  from lo hi show ?thesis
    unfolding mock_estimate by (simp add: js_le_def)
qed



text \<open>
  C3, as stated, fails: the class is decided on the generated value before it is rounded
  for storage. With the draw 0.4921875 the generated value is 10.96875, the class is Mild,
  and the stored estimate is 11.0.
\<close>

theorem C3_counterexample:
  "js_le (Num 11) (hb_estimate_g_dl (generateMockResult env0 ''img''))
   \<and> anemia_class (generateMockResult env0 ''img'') = Some MILD"
  by code_simp

text \<open>
  C3, amended: the class of a synthetic result follows the fixed thresholds on the double
  \<open>hb\<close> that the generator computes, \<open>11.0 + (Math.random() * 4 - 2)\<close> with each operation
  rounded, before it is rounded to one decimal for storage: below 8 Severe, else below 9.5
  Moderate, else below 11 Mild, else Normal. The stored estimate is \<open>hb\<close> printed with one
  decimal and read back.
\<close>

theorem C3_class_follows_computed_hb:
  "anemia_class (generateMockResult e img) =
     Some (if mock_hb e < 8 then SEVERE else if mock_hb e < 19 / 2 then MODERATE
           else if mock_hb e < 11 then MILD else NORMAL)
   \<and> hb_estimate_g_dl (generateMockResult e img) = Num (parseFloat_toFixed 1 (mock_hb e))
   \<and> mock_hb e = double_of (11 + double_of (double_of (rand_hb e * 4) - 2))"
  using mock_class[of e img] mock_estimate[of e img] by (simp add: mock_hb_def)

theorem C3_class_follows_computed_hb_witness:
  "mock_hb env0 = 351 / 32
   \<and> anemia_class (generateMockResult env0 ''img'') = Some MILD
   \<and> hb_estimate_g_dl (generateMockResult env0 ''img'') = Num 11
   \<and> rand_hb env_tie = 1 / 2 - 1 / 2 ^ 52
   \<and> mock_hb env_tie = 11
   \<and> anemia_class (generateMockResult env_tie ''img'') = Some NORMAL"
proof -
  have h: "mock_hb env0 = 351 / 32" by code_simp
  have r: "parseFloat_toFixed 1 (351 / 32) = 11" by code_simp
  have t: "mock_hb env_tie = 11" by code_simp
  have d: "rand_hb env_tie = 1 / 2 - 1 / 2 ^ 52" by (simp add: env_tie_def env0_def)
  from C3_class_follows_computed_hb[of env0 "''img''"] h r
  have a: "anemia_class (generateMockResult env0 ''img'') = Some MILD
           \<and> hb_estimate_g_dl (generateMockResult env0 ''img'') = Num 11"
    by simp
  from C3_class_follows_computed_hb[of env_tie "''img''"] t
  have b: "anemia_class (generateMockResult env_tie ''img'') = Some NORMAL" by simp
  from h a d t b show ?thesis by blast
qed

text \<open>
  C5: with no credential configured, or when the call or the parse of the reply fails, the
  generative-fallback \<open>analyzeNailImage\<close> returns the synthetic result: its estimate lies
  in [9.0, 13.0], its quality flags all pass (sharp, bright, no glare) and it has exactly
  three explanation entries.
\<close>

theorem C5_fallback_returns_synthetic:
  assumes "falsy_string apiKey \<or> reply_fails reply" and "random_ok (rand_hb e)"
  shows "gemini_analyzeNailImage apiKey e reply img = Inr (generateMockResult e img)
       \<and> js_le (Num 9) (hb_estimate_g_dl (generateMockResult e img))
       \<and> js_le (hb_estimate_g_dl (generateMockResult e img)) (Num 13)
       \<and> quality_flags (generateMockResult e img)
           = Some \<lparr> sharpness_ok = True, brightness_ok = True, glare_detected = False \<rparr>
       \<and> map_option length (top_contributing_features (generateMockResult e img)) = Some 3"
proof -
  have ret: "gemini_analyzeNailImage apiKey e reply img = Inr (generateMockResult e img)"
    using assms(1)
    by (cases reply) (auto simp: gemini_analyzeNailImage_def gemini_try_def)
  have flags: "quality_flags (generateMockResult e img)
           = Some \<lparr> sharpness_ok = True, brightness_ok = True, glare_detected = False \<rparr>
       \<and> map_option length (top_contributing_features (generateMockResult e img)) = Some 3"
    by (simp add: generateMockResult_def Let_def)
  from ret flags mock_estimate_range[OF assms(2), of img] show ?thesis by simp
qed

theorem C5_fallback_returns_synthetic_witness:
  "(falsy_string None \<or> reply_fails NoText) \<and> random_ok (rand_hb env0)
   \<and> gemini_analyzeNailImage None env0 NoText ''img'' = Inr (generateMockResult env0 ''img'')
   \<and> hb_estimate_g_dl (generateMockResult env0 ''img'') = Num 11
   \<and> map_option length (top_contributing_features (generateMockResult env0 ''img'')) = Some 3"
proof -
  have h1: "falsy_string None \<or> reply_fails NoText" by (simp add: falsy_string_def)
  have h2: "random_ok (rand_hb env0)" by (simp add: random_ok_def env0_def)
  have v: "hb_estimate_g_dl (generateMockResult env0 ''img'') = Num 11" by code_simp
  from C5_fallback_returns_synthetic[OF h1 h2, of "''img''"] h1 h2 v show ?thesis by simp
qed

section \<open>Label mapping\<close>

lemma startsWith_iff: "startsWith s sub \<longleftrightarrow> (\<exists>ss. s = sub @ ss)"
  by (induction s sub rule: startsWith.induct) auto

lemma includes_str_iff: "includes_str s sub \<longleftrightarrow> (\<exists>ps ss. s = ps @ sub @ ss)"
proof (induction s)
  case Nil
  then show ?case by auto
next
  case (Cons x xs)
  show ?case
  proof
    assume "includes_str (x # xs) sub"
    then consider "startsWith (x # xs) sub" | "includes_str xs sub" by auto
    then show "\<exists>ps ss. x # xs = ps @ sub @ ss"
    proof cases
      case 1
      then obtain ss where "x # xs = sub @ ss" by (auto simp: startsWith_iff)
      then have "x # xs = [] @ sub @ ss" by simp
      then show ?thesis by blast
    next
      case 2
      with Cons.IH obtain ps ss where "xs = ps @ sub @ ss" by auto
      then have "x # xs = (x # ps) @ sub @ ss" by simp
      then show ?thesis by blast
    qed
  next
    assume "\<exists>ps ss. x # xs = ps @ sub @ ss"
    then obtain ps ss where eq: "x # xs = ps @ sub @ ss" by blast
    show "includes_str (x # xs) sub"
    proof (cases ps)
      case Nil
      with eq have "startsWith (x # xs) sub" by (auto simp: startsWith_iff)
      then show ?thesis by simp
    next
      case (Cons p ps')
      with eq have "xs = ps' @ sub @ ss" by simp
      with Cons.IH have "includes_str xs sub" by blast
      then show ?thesis by simp
    qed
  qed
qed

lemma includes_lower_iff: "includes_str (toLowerCase l) w \<longleftrightarrow> ci_substring w l"
proof
  assume "includes_str (toLowerCase l) w"
  then obtain ps ss where "map toLowerChar l = ps @ w @ ss"
    by (auto simp: includes_str_iff toLowerCase_def)
  then obtain pre rest where l: "l = pre @ rest" and r: "map toLowerChar rest = w @ ss"
    by (metis map_eq_append_conv)
  from r obtain mid suf where "rest = mid @ suf" and "map toLowerChar mid = w"
    by (metis map_eq_append_conv)
  with l show "ci_substring w l" by (auto simp: ci_substring_def toLowerCase_def)
next
  assume "ci_substring w l"
  then obtain pre mid suf where "l = pre @ mid @ suf" and "toLowerCase mid = w"
    by (auto simp: ci_substring_def)
  then have "toLowerCase l = toLowerCase pre @ w @ toLowerCase suf"
    by (auto simp: toLowerCase_def)
  then show "includes_str (toLowerCase l) w" unfolding includes_str_iff by blast
qed

lemma ci_substring_empty: "w \<noteq> [] \<Longrightarrow> \<not> ci_substring w []"
  by (auto simp: ci_substring_def toLowerCase_def)

lemma mapAnemiaClass_Some: "mapAnemiaClass (Some l) = spec_label_class l"
proof (cases "toLowerCase l = []")
  case True
  then have "l = []" by (simp add: toLowerCase_def)
  then show ?thesis
    by (simp add: mapAnemiaClass_def spec_label_class_def toLowerCase_def ci_substring_empty)
next
  case False
  then show ?thesis
    by (simp add: mapAnemiaClass_def spec_label_class_def includes_lower_iff)
qed

lemma mapAnemiaClass_None: "mapAnemiaClass None = NORMAL"
  by (simp add: mapAnemiaClass_def)


section \<open>Structured backend normalization\<close>

lemma map_returns:
  assumes "prediction bd = Some p"
  shows "\<exists>r. mapBackendToFrontend e bd img = Inr r"
  using assms by (simp add: mapBackendToFrontend_def Let_def)

lemma map_class:
  assumes "prediction bd = Some p" and "mapBackendToFrontend e bd img = Inr r"
  shows "anemia_class r = Some (mapAnemiaClass (p_anemia_class p))"
  using assms by (auto simp: mapBackendToFrontend_def Let_def)

lemma map_features:
  assumes "prediction bd = Some p" and "mapBackendToFrontend e bd img = Inr r"
  shows "top_contributing_features r =
           Some (if supplied_features bd = [] then placeholder_features
                 else map mapFeature (take 3 (supplied_features bd)))"
  using assms by (auto simp: mapBackendToFrontend_def Let_def)

lemma map_confidence:
  assumes "prediction bd = Some p" and "mapBackendToFrontend e bd img = Inr r"
  shows "confidence r =
           Num (parseFloat_toFixed 2
                  (clamp (double_of (1 - num_or (p_uncertainty p) (double_of (1 / 10))))
                     (1 / 2) (double_of (99 / 100))))"
  using assms by (auto simp: mapBackendToFrontend_def Let_def clamp_def)






text \<open>
  C6: the class of a normalized structured-backend result is chosen from the backend's
  label by case-insensitive substring match in the priority order severe, moderate, mild,
  default normal (also when the label is absent or empty); a label containing both "mild"
  and "severe" maps to Severe.
\<close>

theorem C6_label_priority:
  assumes "prediction bd = Some p"
  shows "\<exists>r. mapBackendToFrontend e bd img = Inr r
           \<and> anemia_class r =
               Some (case p_anemia_class p of None \<Rightarrow> NORMAL | Some l \<Rightarrow> spec_label_class l)
           \<and> (case p_anemia_class p of
                None \<Rightarrow> True
              | Some l \<Rightarrow> \<not> (ci_substring ''mild'' l \<and> ci_substring ''severe'' l)
                          \<or> anemia_class r = Some SEVERE)"
proof -
  from map_returns[OF assms] obtain r where r: "mapBackendToFrontend e bd img = Inr r" by blast
  have c: "anemia_class r = Some (mapAnemiaClass (p_anemia_class p))"
    by (rule map_class[OF assms r])
  show ?thesis
  proof (cases "p_anemia_class p")
    case None
    with r c show ?thesis by (simp add: mapAnemiaClass_None)
  next
    case (Some l)
    with r c show ?thesis by (auto simp: mapAnemiaClass_Some spec_label_class_def)
  qed
qed

lemma ci_mild0: "ci_substring ''mild'' ''Mild to SEVERE''"
proof -
  have "includes_str (toLowerCase ''Mild to SEVERE'') ''mild''" by code_simp
  then show ?thesis by (simp only: includes_lower_iff)
qed

lemma ci_severe0: "ci_substring ''severe'' ''Mild to SEVERE''"
proof -
  have "includes_str (toLowerCase ''Mild to SEVERE'') ''severe''" by code_simp
  then show ?thesis by (simp only: includes_lower_iff)
qed

theorem C6_label_priority_witness:
  "prediction backend0 = Some pred0
   \<and> p_anemia_class pred0 = Some ''Mild to SEVERE''
   \<and> ci_substring ''mild'' ''Mild to SEVERE'' \<and> ci_substring ''severe'' ''Mild to SEVERE''
   \<and> (\<exists>r. mapBackendToFrontend env0 backend0 ''img'' = Inr r \<and> anemia_class r = Some SEVERE)"
proof -
  have h: "prediction backend0 = Some pred0" by (simp add: backend0_def)
  have l: "p_anemia_class pred0 = Some ''Mild to SEVERE''" by (simp add: pred0_def)
  from C6_label_priority[OF h, of env0 "''img''"] obtain r where
    r: "mapBackendToFrontend env0 backend0 ''img'' = Inr r"
    and s: "\<not> (ci_substring ''mild'' ''Mild to SEVERE'' \<and> ci_substring ''severe'' ''Mild to SEVERE'')
            \<or> anemia_class r = Some SEVERE"
    unfolding l by auto
  from s ci_mild0 ci_severe0 have "anemia_class r = Some SEVERE" by blast
  with r h l ci_mild0 ci_severe0 show ?thesis by blast
qed

text \<open>
  C2, as stated, fails: a response supplying one feature is normalized to a list of one
  entry; the placeholders replace only an empty list.
\<close>

theorem C2_counterexample:
  "\<not> isl (mapBackendToFrontend env0 backend_one_feature ''img'')
   \<and> length (supplied_features backend_one_feature) = 1
   \<and> map_option length
        (top_contributing_features
           (projr (mapBackendToFrontend env0 backend_one_feature ''img''))) = Some 1"
  by code_simp

text \<open>
  C2, amended: when the response supplies no feature (or no explainability section) the
  explanation list is the three fixed placeholders; otherwise it is the first three
  supplied features, mapped in order, so it has \<open>min 3 n\<close> entries for \<open>n\<close> supplied
  features, and more than three are truncated to the top three.
\<close>

theorem C2_explanation_list:
  assumes "prediction bd = Some p"
  shows "\<exists>r. mapBackendToFrontend e bd img = Inr r
           \<and> top_contributing_features r =
               Some (if supplied_features bd = [] then placeholder_features
                     else map mapFeature (take 3 (supplied_features bd)))
           \<and> map_option length (top_contributing_features r) =
               Some (if supplied_features bd = [] then 3
                     else min 3 (length (supplied_features bd)))"
proof -
  from map_returns[OF assms] obtain r where r: "mapBackendToFrontend e bd img = Inr r" by blast
  from map_features[OF assms r] r show ?thesis
    by (auto simp: placeholder_features_def)
qed

theorem C2_explanation_list_witness:
  "prediction backend_four_features = Some pred0
   \<and> length (supplied_features backend_four_features) = 4
   \<and> (\<exists>r. mapBackendToFrontend env0 backend_four_features ''img'' = Inr r
           \<and> top_contributing_features r
               = Some [mapFeature feat0, mapFeature feat0, mapFeature feat0])"
proof -
  have h: "prediction backend_four_features = Some pred0"
    by (simp add: backend_four_features_def backend0_def)
  have f: "supplied_features backend_four_features = [feat0, feat0, feat0, feat0]"
    by (simp add: backend_four_features_def backend0_def supplied_features_def)
  from C2_explanation_list[OF h, of env0 "''img''"] h f show ?thesis by auto
qed

text \<open>
  C4 at the uncertainty score 0: \<open>prediction.uncertainty || 0.1\<close> takes the score 0 for a
  missing one, so the confidence is the double 0.9, where \<open>clamp (1 - 0) 0.5 0.99\<close>
  rounded to two decimals is the double 0.99.
\<close>

theorem C4_zero_uncertainty:
  "\<not> isl (mapBackendToFrontend env0 backend_zero_uncertainty ''img'')
   \<and> confidence (projr (mapBackendToFrontend env0 backend_zero_uncertainty ''img''))
       = Num (double_of (9 / 10))
   \<and> parseFloat_toFixed 2 (clamp (double_of (1 - 0)) (1 / 2) (double_of (99 / 100)))
       = double_of (99 / 100)
   \<and> double_of (9 / 10) < double_of (99 / 100)"
  by code_simp

lemma confidence_nonzero_uncertainty:
  assumes "prediction bd = Some p" and "p_uncertainty p = Some u" and "u \<noteq> 0"
    and "mapBackendToFrontend e bd img = Inr r"
  shows "confidence r =
           Num (parseFloat_toFixed 2 (clamp (double_of (1 - u)) (1 / 2) (double_of (99 / 100))))"
  using map_confidence[OF assms(1) assms(4)] assms(2,3) by (simp add: num_or_def)

lemma confidence_zero_uncertainty:
  assumes "prediction bd = Some p" and "p_uncertainty p = Some 0"
    and "mapBackendToFrontend e bd img = Inr r"
  shows "confidence r = Num (double_of (9 / 10))"
proof -
  have "parseFloat_toFixed 2 (clamp (double_of (1 - double_of (1 / 10))) (1 / 2)
          (double_of (99 / 100))) = double_of (9 / 10)"
    by code_simp
  with map_confidence[OF assms(1) assms(3)] assms(2) show ?thesis by (simp add: num_or_def)
qed

lemma confidence_at_uncertainty_0015:
  "parseFloat_toFixed 2 (clamp (double_of (1 - double_of (15 / 1000))) (1 / 2)
     (double_of (99 / 100))) = double_of (98 / 100)"
  by code_simp


lemma omitted_hb_gives_NaN_interval:
  "hb_ci_95 (projr (mapBackendToFrontend env0 backend_no_hb ''img'')) = (NaN, NaN)
   \<and> hb_estimate_g_dl (projr (mapBackendToFrontend env0 backend_no_hb ''img'')) = Num 12
   \<and> \<not> ci_ordered (projr (mapBackendToFrontend env0 backend_no_hb ''img''))"
  by code_simp

lemma empty_reply_gives_NaN_interval:
  "gemini_analyzeNailImage (Some ''key'') env0 (Parsed gemini_empty) ''img''
     = Inr \<lparr> result_id = ''u1'', timestamp = Num 1000, hb_estimate_g_dl = Undefined,
             hb_ci_95 = (NaN, NaN), anemia_class = None, confidence = Undefined,
             tone_group = Undefined, quality_flags = None,
             top_contributing_features = None, imageUrl = ''img'' \<rparr>"
  by code_simp




section \<open>Session and history store\<close>

lemma find_None_iff_ball: "find P xs = None \<longleftrightarrow> (\<forall>x\<in>set xs. \<not> P x)"
  by (induction xs) auto

lemma find_Some_in: "find P xs = Some x \<Longrightarrow> x \<in> set xs \<and> P x"
  by (induction xs) (auto split: if_splits)

lemma register_eq:
  "register e s em pw a g t =
     (if (\<exists>u\<in>set (read_users s). email u = em) then (Inl DuplicateEmail, s)
      else (Inr (newUser e em pw a g t),
            s\<lparr> users_table := Some (read_users s @ [newUser e em pw a g t]),
               current_session := Some (newUser e em pw a g t) \<rparr>))"
proof (cases "find (\<lambda>u. email u = em) (read_users s)")
  case None
  then have "\<not> (\<exists>u\<in>set (read_users s). email u = em)" by (simp add: find_None_iff_ball)
  with None show ?thesis by (simp add: register_def Let_def)
next
  case (Some u)
  then have "\<exists>u\<in>set (read_users s). email u = em" using find_Some_in by fastforce
  with Some show ?thesis by (simp add: register_def Let_def)
qed

text \<open>
  C7, as stated, fails: the identifier of the new user is whatever \<open>generateUUID\<close>
  returns, and \<open>register\<close> compares only the email with the users table. When the call
  returns the identifier of a stored user, registration succeeds and the table holds two
  users with that identifier.
\<close>

theorem C7_counterexample:
  "fst (register env_used_id store0 ''b@x.com'' ''pw'' 41 Male True)
     = Inr (newUser env_used_id ''b@x.com'' ''pw'' 41 Male True)
   \<and> user_id (newUser env_used_id ''b@x.com'' ''pw'' 41 Male True) = user_id alice
   \<and> read_users (snd (register env_used_id store0 ''b@x.com'' ''pw'' 41 Male True))
       = [alice, newUser env_used_id ''b@x.com'' ''pw'' 41 Male True]
   \<and> \<not> distinct (map user_id
         (read_users (snd (register env_used_id store0 ''b@x.com'' ''pw'' 41 Male True))))"
proof -
  have u: "read_users store0 = [alice]" by (simp add: read_users_def store0_def)
  have n: "\<not> (\<exists>u\<in>set (read_users store0). email u = ''b@x.com'')"
    by (simp add: u alice_def)
  have i: "user_id (newUser env_used_id ''b@x.com'' ''pw'' 41 Male True) = user_id alice"
    by (simp add: newUser_def env_used_id_def alice_def)
  let ?nu = "newUser env_used_id ''b@x.com'' ''pw'' 41 Male True"
  let ?s' = "store0\<lparr> users_table := Some (read_users store0 @ [?nu]),
                     current_session := Some ?nu \<rparr>"
  from n have eq: "register env_used_id store0 ''b@x.com'' ''pw'' 41 Male True = (Inr ?nu, ?s')"
    by (simp only: register_eq if_False)
  have t: "read_users ?s' = [alice, ?nu]" by (simp add: read_users_def store0_def)
  have a: "user_id alice = ''u0''" by (simp add: alice_def)
  from i a have "\<not> distinct (map user_id [alice, ?nu])" by simp
  with eq t i show ?thesis by simp
qed

text \<open>
  C7, amended: \<open>register\<close> fails with the DuplicateEmail error exactly when some user of
  the users table has the same email (compared exactly, case-sensitively), and then
  leaves the store as it is. Otherwise it returns the new user, which carries the given
  email, credential, age, gender and terms flag, the current time, a data-sharing opt-in
  of false and the identifier that \<open>generateUUID\<close> returned; it appends that user to the
  users table and points the session at it, so that \<open>getCurrentUser\<close> returns it. The
  identifier is not compared with the table: after a successful registration the
  identifiers of the table are pairwise distinct exactly when they were before and the
  returned identifier was not in use.
\<close>

theorem C7_register:
  "register e s em pw a g t =
     (if (\<exists>u\<in>set (read_users s). email u = em) then (Inl DuplicateEmail, s)
      else (Inr (newUser e em pw a g t),
            s\<lparr> users_table := Some (read_users s @ [newUser e em pw a g t]),
               current_session := Some (newUser e em pw a g t) \<rparr>))
   \<and> (fst (register e s em pw a g t) = Inl DuplicateEmail)
       = (\<exists>u\<in>set (read_users s). email u = em)
   \<and> newUser e em pw a g t =
       \<lparr> user_id = uuid e, email = em, password = Some pw, age = a, gender = g,
         termsAccepted = t, createdAt = now e, shareData = Some False \<rparr>
   \<and> (\<not> (\<exists>u\<in>set (read_users s). email u = em) \<longrightarrow>
        read_users (snd (register e s em pw a g t)) = read_users s @ [newUser e em pw a g t]
        \<and> getCurrentUser (snd (register e s em pw a g t)) = Some (newUser e em pw a g t)
        \<and> distinct (map user_id (read_users (snd (register e s em pw a g t))))
            = (distinct (map user_id (read_users s))
               \<and> uuid e \<notin> set (map user_id (read_users s))))"
  by (auto simp: register_eq read_users_def getCurrentUser_def newUser_def)

theorem C7_register_witness:
  "\<not> (\<exists>u\<in>set (read_users store0). email u = ''b@x.com'')
   \<and> fst (register env0 store0 ''b@x.com'' ''pw'' 41 Male True)
       = Inr (newUser env0 ''b@x.com'' ''pw'' 41 Male True)
   \<and> read_users (snd (register env0 store0 ''b@x.com'' ''pw'' 41 Male True))
       = [alice, newUser env0 ''b@x.com'' ''pw'' 41 Male True]
   \<and> getCurrentUser (snd (register env0 store0 ''b@x.com'' ''pw'' 41 Male True))
       = Some (newUser env0 ''b@x.com'' ''pw'' 41 Male True)
   \<and> distinct (map user_id (read_users (snd (register env0 store0 ''b@x.com'' ''pw'' 41 Male True))))
   \<and> fst (register env0 store0 ''a@x.com'' ''pw'' 41 Male True) = Inl DuplicateEmail"
proof -
  have u: "read_users store0 = [alice]" by (simp add: read_users_def store0_def)
  have h1: "\<not> (\<exists>u\<in>set (read_users store0). email u = ''b@x.com'')"
    by (simp add: u alice_def)
  have h2: "uuid env0 \<notin> set (map user_id (read_users store0))"
    by (simp add: u alice_def env0_def)
  have h3: "distinct (map user_id (read_users store0))" by (simp add: u)
  have d: "\<exists>u\<in>set (read_users store0). email u = ''a@x.com''" by (simp add: u alice_def)
  note ok = C7_register[of env0 store0 "''b@x.com''" "''pw''" 41 Male True]
  note dup = C7_register[of env0 store0 "''a@x.com''" "''pw''" 41 Male True]
  from ok h1 have "register env0 store0 ''b@x.com'' ''pw'' 41 Male True
       = (Inr (newUser env0 ''b@x.com'' ''pw'' 41 Male True),
          store0\<lparr> users_table :=
                    Some (read_users store0 @ [newUser env0 ''b@x.com'' ''pw'' 41 Male True]),
                  current_session := Some (newUser env0 ''b@x.com'' ''pw'' 41 Male True) \<rparr>)"
    by (simp only: if_False)
  then have r: "fst (register env0 store0 ''b@x.com'' ''pw'' 41 Male True)
       = Inr (newUser env0 ''b@x.com'' ''pw'' 41 Male True)" by simp
  from ok h1 have "read_users (snd (register env0 store0 ''b@x.com'' ''pw'' 41 Male True))
       = read_users store0 @ [newUser env0 ''b@x.com'' ''pw'' 41 Male True]" by blast
  then have t: "read_users (snd (register env0 store0 ''b@x.com'' ''pw'' 41 Male True))
       = [alice, newUser env0 ''b@x.com'' ''pw'' 41 Male True]" by (simp only: u append.simps)
  from ok h1 have c: "getCurrentUser (snd (register env0 store0 ''b@x.com'' ''pw'' 41 Male True))
       = Some (newUser env0 ''b@x.com'' ''pw'' 41 Male True)" by blast
  from ok h1 h2 h3
  have i: "distinct (map user_id (read_users (snd (register env0 store0 ''b@x.com'' ''pw'' 41 Male True))))"
    by blast
  from dup d have f: "fst (register env0 store0 ''a@x.com'' ''pw'' 41 Male True) = Inl DuplicateEmail"
    by blast
  from h1 r t c i f show ?thesis by blast
qed

text \<open>
  C8: \<open>login\<close> with an email and credential that no stored user matches in both fields
  fails with InvalidCredentials and returns the store unchanged, so no session is created;
  when some user matches, it returns a matching user and points the session at that user.
\<close>

theorem C8_login:
  "((\<forall>u\<in>set (read_users s). \<not> (email u = em \<and> password u = Some pw)) \<longrightarrow>
       login s em pw = (Inl InvalidCredentials, s)
       \<and> getCurrentUser (snd (login s em pw)) = getCurrentUser s)
   \<and> ((\<exists>u\<in>set (read_users s). email u = em \<and> password u = Some pw) \<longrightarrow>
       (\<exists>u\<in>set (read_users s). email u = em \<and> password u = Some pw
          \<and> login s em pw = (Inr u, s\<lparr> current_session := Some u \<rparr>)
          \<and> getCurrentUser (snd (login s em pw)) = Some u))"
proof (cases "find (\<lambda>u. email u = em \<and> password u = Some pw) (read_users s)")
  case None
  then have "\<forall>u\<in>set (read_users s). \<not> (email u = em \<and> password u = Some pw)"
    by (simp add: find_None_iff_ball)
  with None show ?thesis by (auto simp: login_def Let_def)
next
  case (Some u)
  then have "u \<in> set (read_users s) \<and> email u = em \<and> password u = Some pw"
    using find_Some_in by fastforce
  with Some show ?thesis by (auto simp: login_def Let_def getCurrentUser_def)
qed

theorem C8_login_witness:
  "\<not> (\<exists>u\<in>set (read_users store0). email u = ''a@x.com'' \<and> password u = Some ''wrong'')
   \<and> login store0 ''a@x.com'' ''wrong'' = (Inl InvalidCredentials, store0)
   \<and> getCurrentUser (snd (login store0 ''a@x.com'' ''wrong'')) = None
   \<and> (\<exists>u\<in>set (read_users store0). email u = ''a@x.com'' \<and> password u = Some ''secret1'')
   \<and> getCurrentUser (snd (login store0 ''a@x.com'' ''secret1'')) = Some alice"
proof -
  have u: "read_users store0 = [alice]" by (simp add: read_users_def store0_def)
  have h1: "\<forall>u\<in>set (read_users store0). \<not> (email u = ''a@x.com'' \<and> password u = Some ''wrong'')"
    by (simp add: u alice_def)
  have h2: "\<exists>u\<in>set (read_users store0). email u = ''a@x.com'' \<and> password u = Some ''secret1''"
    by (simp add: u alice_def)
  have n: "getCurrentUser store0 = None" by (simp add: getCurrentUser_def store0_def)
  from C8_login[of store0 "''a@x.com''" "''wrong''"] C8_login[of store0 "''a@x.com''" "''secret1''"] h1 h2 n u
  show ?thesis by auto
qed

lemma json_num_idem: "json_num (json_num x) = json_num x"
  by (cases x) simp_all

lemma json_elem_idem: "json_elem (json_elem x) = json_elem x"
  by (cases x) simp_all

lemma json_result_idem: "json_result (json_result r) = json_result r"
  by (simp add: json_result_def json_num_idem json_elem_idem)

lemma json_num_fix: "json_num x = x \<longleftrightarrow> x \<noteq> NaN"
  by (cases x) simp_all

lemma json_elem_fix: "json_elem x = x \<longleftrightarrow> x \<noteq> NaN \<and> x \<noteq> Undefined"
  by (cases x) simp_all

lemma json_exact_iff:
  "json_exact r \<longleftrightarrow>
     timestamp r \<noteq> NaN \<and> hb_estimate_g_dl r \<noteq> NaN
     \<and> fst (hb_ci_95 r) \<noteq> NaN \<and> fst (hb_ci_95 r) \<noteq> Undefined
     \<and> snd (hb_ci_95 r) \<noteq> NaN \<and> snd (hb_ci_95 r) \<noteq> Undefined
     \<and> confidence r \<noteq> NaN \<and> tone_group r \<noteq> NaN"
proof -
  have "json_result r = r \<longleftrightarrow>
     json_num (timestamp r) = timestamp r \<and> json_num (hb_estimate_g_dl r) = hb_estimate_g_dl r
     \<and> json_elem (fst (hb_ci_95 r)) = fst (hb_ci_95 r)
     \<and> json_elem (snd (hb_ci_95 r)) = snd (hb_ci_95 r)
     \<and> json_num (confidence r) = confidence r \<and> json_num (tone_group r) = tone_group r"
    by (cases r) (auto simp: json_result_def)
  then show ?thesis by (simp add: json_exact_def json_num_fix json_elem_fix)
qed

lemma getUserHistory_saveScan:
  "getUserHistory (saveScan s uid r) uid = getUserHistory s uid @ [json_result r]"
  by (simp add: getUserHistory_def saveScan_def Let_def json_result_idem split: option.splits)

text \<open>
  C9, as stated, fails for a result with a \<open>NaN\<close> field, such as the result normalized
  from a response that omits \<open>hb_g_per_dl\<close> and \<open>hb_ci_95\<close>: the history is kept as JSON
  text, which has no \<open>NaN\<close>, and the interval is read back as [null, null].
\<close>

theorem C9_counterexample:
  "getUserHistory (saveScan (saveScan store0 ''u0'' result_nan) ''u0'' result_ok) ''u0''
     \<noteq> getUserHistory store0 ''u0'' @ [result_nan, result_ok]"
  by code_simp

text \<open>
  C9, amended: after \<open>saveScan userId R1\<close> and then \<open>saveScan userId R2\<close>,
  \<open>getUserHistory userId\<close> is the history before, extended by R1 and R2 as JSON reads them
  back, in that order; a result without a \<open>NaN\<close> field is read back as itself, so for such
  results the history is extended by [R1, R2]. The history of a user with no saved scan is
  empty.
\<close>

theorem C9_history_append:
  "getUserHistory (saveScan (saveScan s uid r1) uid r2) uid
     = getUserHistory s uid @ [json_result r1, json_result r2]
   \<and> (json_exact r1 \<and> json_exact r2 \<longrightarrow>
        getUserHistory (saveScan (saveScan s uid r1) uid r2) uid = getUserHistory s uid @ [r1, r2])
   \<and> (history_table s uid = None \<longrightarrow> getUserHistory s uid = [])"
  by (simp add: getUserHistory_saveScan json_exact_def) (simp add: getUserHistory_def)

theorem C9_history_append_witness:
  "json_exact result_ok \<and> json_exact result_ok \<and> history_table store0 ''u0'' = None
   \<and> getUserHistory store0 ''u0'' = []
   \<and> getUserHistory (saveScan (saveScan store0 ''u0'' result_ok) ''u0'' result_ok) ''u0''
       = [result_ok, result_ok]"
proof -
  have e: "json_exact result_ok"
    by (simp add: json_exact_def json_result_def result_ok_def generateMockResult_def Let_def)
  have n: "history_table store0 ''u0'' = None" by (simp add: store0_def)
  note c = C9_history_append[of store0 "''u0''" result_ok result_ok]
  from c n have a: "getUserHistory store0 ''u0'' = []" by blast
  from c e have "getUserHistory (saveScan (saveScan store0 ''u0'' result_ok) ''u0'' result_ok) ''u0''
       = getUserHistory store0 ''u0'' @ [result_ok, result_ok]" by blast
  then have b: "getUserHistory (saveScan (saveScan store0 ''u0'' result_ok) ''u0'' result_ok) ''u0''
       = [result_ok, result_ok]" by (simp only: a append_Nil)
  from e n a b show ?thesis by blast
qed

text \<open>
  C10: \<open>updateUser\<close> writes the session pointer before it looks at the users table, so
  \<open>getCurrentUser\<close> returns the given user afterwards in every case; when no row of the
  users table has the user's identifier, the users table (and every history) is unchanged,
  and the session then points at a user that is not in the users table.
\<close>

theorem C10_updateUser_session:
  "getCurrentUser (updateUser s u) = Some u
   \<and> ((\<forall>row\<in>set (read_users s). user_id row \<noteq> user_id u) \<longrightarrow>
        users_table (updateUser s u) = users_table s
        \<and> history_table (updateUser s u) = history_table s
        \<and> u \<notin> set (read_users (updateUser s u)))"
proof -
  have m: "(\<forall>row\<in>set xs. user_id row \<noteq> user_id u) \<Longrightarrow>
           map (\<lambda>x. if user_id x = user_id u then u else x) xs = xs" for xs
    by (induction xs) auto
  show ?thesis
    by (cases "users_table s")
       (auto simp: updateUser_def getCurrentUser_def read_users_def Let_def m)
qed

theorem C10_updateUser_session_witness:
  "\<not> (\<exists>row\<in>set (read_users store0).
          user_id row = user_id (newUser env0 ''b@x.com'' ''pw'' 41 Male True))
   \<and> users_table (updateUser store0 (newUser env0 ''b@x.com'' ''pw'' 41 Male True)) = Some [alice]
   \<and> getCurrentUser (updateUser store0 (newUser env0 ''b@x.com'' ''pw'' 41 Male True))
       = Some (newUser env0 ''b@x.com'' ''pw'' 41 Male True)
   \<and> newUser env0 ''b@x.com'' ''pw'' 41 Male True
       \<notin> set (read_users (updateUser store0 (newUser env0 ''b@x.com'' ''pw'' 41 Male True)))"
proof -
  have u: "read_users store0 = [alice]" "users_table store0 = Some [alice]"
    by (simp_all add: read_users_def store0_def)
  have h: "\<forall>row\<in>set (read_users store0).
             user_id row \<noteq> user_id (newUser env0 ''b@x.com'' ''pw'' 41 Male True)"
    by (simp add: u alice_def newUser_def env0_def)
  from C10_updateUser_session[of store0 "newUser env0 ''b@x.com'' ''pw'' 41 Male True"] h u
  show ?thesis by simp
qed

end
